theory Spec2Isabelle
  imports Complex_Main "HOL-Library.Sublist"
begin

section \<open>Strings\<close>

text \<open>
  Python strings are modelled as HOL strings: sequences of code points below 256.
  \<open>py_isspace\<close> is \<open>str.isspace\<close> on that range (the characters \<open>str.strip()\<close>
  removes), \<open>py_lower_char\<close> is \<open>str.lower\<close> on that range.
\<close>

definition py_isspace :: "char \<Rightarrow> bool" where
  "py_isspace c = (let n = of_char c :: nat in
     (9 \<le> n \<and> n \<le> 13) \<or> (28 \<le> n \<and> n \<le> 32) \<or> n = 133 \<or> n = 160)"

definition py_lower_char :: "char \<Rightarrow> char" where
  "py_lower_char c = (let n = of_char c :: nat in
     if (65 \<le> n \<and> n \<le> 90) \<or> (192 \<le> n \<and> n \<le> 214) \<or> (216 \<le> n \<and> n \<le> 222)
     then char_of (n + 32) else c)"

definition lower :: "string \<Rightarrow> string" where
  "lower s = map py_lower_char s"

definition lstrip :: "string \<Rightarrow> string" where
  "lstrip s = dropWhile py_isspace s"

definition rstrip :: "string \<Rightarrow> string" where
  "rstrip s = rev (dropWhile py_isspace (rev s))"

definition strip :: "string \<Rightarrow> string" where
  "strip s = rstrip (lstrip s)"

definition startswith :: "string \<Rightarrow> string list \<Rightarrow> bool" where
  "startswith s ps = (\<exists>p \<in> set ps. prefix p s)"

section \<open>The query executor\<close>

text \<open>
  \<open>SQL_SERVER_CONN\<close>: the four entries read by \<open>execute_sql_query\<close>; each is what
  \<open>os.getenv\<close> returned, \<open>None\<close> for an unset variable.
\<close>

record sql_server_conn =
  server :: "string option"
  database :: "string option"
  uid :: "string option"
  pwd :: "string option"

text \<open>Python truthiness of an optional string: \<open>None\<close> and \<open>''\<close> are falsy.\<close>

fun truthy :: "string option \<Rightarrow> bool" where
  "truthy None = False"
| "truthy (Some s) = (s \<noteq> [])"

text \<open>
  What the database driver does during one call. Every driver operation of the source is
  called at most once per call of \<open>execute_sql_query\<close>, so its outcome is one field:
  \<open>None\<close> for a normal return, \<open>Some m\<close> for an exception whose \<open>str\<close> is \<open>m\<close>.
  \<open>description\<close> is \<open>cursor.description\<close>: \<open>None\<close> when the statement produced no
  result set, else one (name, type code) entry per column.
\<close>

record 'v driver =
  connect_out :: "string option"
  cursor_out :: "string option"
  execute_out :: "string option"
  description :: "(string \<times> int) list option"
  fetchall_out :: "string + 'v list list"
  cursor_exit_out :: "string option"
  commit_out :: "string option"
  rollback_out :: "string option"
  close_out :: "string option"

text \<open>The driver operations invoked, in order.\<close>

datatype 'v event =
    Connect
  | Cursor
  | Execute string "'v list option"
  | Fetchall
  | CursorExit
  | Commit
  | Rollback
  | Close

text \<open>A Python dict keeps insertion order; assigning to a present key keeps its place.\<close>

fun dict_set :: "'k \<Rightarrow> 'a \<Rightarrow> ('k \<times> 'a) list \<Rightarrow> ('k \<times> 'a) list" where
  "dict_set k v [] = [(k, v)]"
| "dict_set k v ((k', v') # d) = (if k' = k then (k, v) # d else (k', v') # dict_set k v d)"

definition dict :: "('k \<times> 'a) list \<Rightarrow> ('k \<times> 'a) list" where
  "dict kvs = foldl (\<lambda>d (k, v). dict_set k v d) [] kvs"

definition is_mutation :: "string \<Rightarrow> bool" where
  "is_mutation query = startswith (strip (lower query)) [''insert'', ''update'', ''delete'']"

text \<open>\<open>if params:\<close> - \<open>None\<close> and the empty tuple are falsy.\<close>

fun used_params :: "'v list option \<Rightarrow> 'v list option" where
  "used_params None = None"
| "used_params (Some ps) = (if ps = [] then None else Some ps)"

text \<open>
  The statements under \<open>with conn.cursor() as cursor:\<close>, after the cursor was obtained.
  The result is the events and either the exception's message or the returned rows.
\<close>

definition with_body ::
  "'v driver \<Rightarrow> string \<Rightarrow> 'v list option \<Rightarrow> 'v event list \<times> (string + (string \<times> 'v) list list)" where
  "with_body d query params =
     (case execute_out d of
        Some m \<Rightarrow> ([Execute query (used_params params)], Inl m)
      | None \<Rightarrow>
         (case description d of
            None \<Rightarrow> ([Execute query (used_params params)],
                      Inl (CHR 0x27 # ''NoneType'' @ CHR 0x27 # '' object is not iterable''))
          | Some cols \<Rightarrow>
             (let column_names = map fst cols in
              case fetchall_out d of
                Inl m \<Rightarrow> ([Execute query (used_params params), Fetchall], Inl m)
              | Inr results \<Rightarrow>
                 (let results_with_columns = map (\<lambda>row. dict (zip column_names row)) results in
                  if is_mutation query then
                    (case commit_out d of
                       Some m \<Rightarrow> ([Execute query (used_params params), Fetchall, Commit], Inl m)
                     | None \<Rightarrow> ([Execute query (used_params params), Fetchall, Commit],
                                Inr results_with_columns))
                  else ([Execute query (used_params params), Fetchall],
                        Inr results_with_columns)))))"

text \<open>
  The \<open>with\<close> statement: \<open>conn.cursor()\<close>, the body, then the cursor's \<open>__exit__\<close>, which
  runs however the body ended; an exception of \<open>__exit__\<close> replaces the body's outcome.
\<close>

definition cursor_block ::
  "'v driver \<Rightarrow> string \<Rightarrow> 'v list option \<Rightarrow> 'v event list \<times> (string + (string \<times> 'v) list list)" where
  "cursor_block d query params =
     (case cursor_out d of
        Some m \<Rightarrow> ([Cursor], Inl m)
      | None \<Rightarrow>
         (let (ev, r) = with_body d query params in
          case cursor_exit_out d of
            Some m \<Rightarrow> (Cursor # ev @ [CursorExit], Inl m)
          | None \<Rightarrow> (Cursor # ev @ [CursorExit], r)))"

text \<open>
  The inner \<open>try\<close>: the \<open>except\<close> clause rolls back and raises the wrapped exception (or
  the rollback's own exception); the \<open>finally\<close> clause closes the connection, and an
  exception of \<open>close\<close> replaces the outcome.
\<close>

definition inner_try ::
  "'v driver \<Rightarrow> string \<Rightarrow> 'v list option \<Rightarrow> 'v event list \<times> (string + (string \<times> 'v) list list)" where
  "inner_try d query params =
     (let (ev, r) = cursor_block d query params;
          (ev', r') =
            (case r of
               Inr rows \<Rightarrow> (ev, Inr rows)
             | Inl m \<Rightarrow>
                (case rollback_out d of
                   Some m' \<Rightarrow> (ev @ [Rollback], Inl m')
                 | None \<Rightarrow> (ev @ [Rollback], Inl (''Error executing query: '' @ m))))
      in case close_out d of
           Some m \<Rightarrow> (ev' @ [Close], Inl m)
         | None \<Rightarrow> (ev' @ [Close], r'))"

definition execute_sql_query ::
  "sql_server_conn \<Rightarrow> 'v driver \<Rightarrow> string \<Rightarrow> 'v list option
     \<Rightarrow> 'v event list \<times> (string + (string \<times> 'v) list list)" where
  "execute_sql_query conf d query params =
     (let (ev, r) =
        (if \<not> (truthy (server conf) \<and> truthy (database conf) \<and> truthy (uid conf) \<and> truthy (pwd conf))
         then ([], Inl ''Missing database connection parameters'')
         else
           (case connect_out d of
              Some m \<Rightarrow> ([Connect], Inl m)
            | None \<Rightarrow> (let (ev, r) = inner_try d query params in (Connect # ev, r))))
      in case r of
           Inl m \<Rightarrow> (ev, Inl (''Database connection error: '' @ m))
         | Inr rows \<Rightarrow> (ev, Inr rows))"

text \<open>How often an operation was invoked.\<close>

definition invocations :: "'v event \<Rightarrow> 'v event list \<Rightarrow> nat" where
  "invocations e evs = count_list evs e"

definition opened :: "sql_server_conn \<Rightarrow> 'v driver \<Rightarrow> bool" where
  "opened conf d \<longleftrightarrow>
     truthy (server conf) \<and> truthy (database conf) \<and> truthy (uid conf) \<and> truthy (pwd conf)
     \<and> connect_out d = None"

section \<open>The metadata fetcher\<close>

text \<open>
  The catalog's answer as the source reads it. A key the source subscripts may be absent from
  the response (\<open>None\<close> here), which raises \<open>KeyError\<close> in the source;
  \<open>Description\<close> is read with \<open>get\<close> and a default.
\<close>

record glue_column =
  col_Name :: "string option"
  col_Type :: "string option"

record glue_table =
  tbl_Name :: "string option"
  tbl_StorageDescriptor :: "glue_column list option option"
  tbl_Description :: "string option"

datatype glue_outcome =
    Get_tables_raises string
  | Get_tables_returns "glue_table list option"

text \<open>One value of the metadata map, and the map: dicts in insertion order.\<close>

record table_info =
  columns :: "string list"
  description_of :: string
  column_types :: "(string \<times> string) list"

type_synonym metadata = "(string \<times> table_info) list"

text \<open>What \<open>st.warning\<close> and \<open>st.error\<close> were called with.\<close>

datatype message = Warning string | Error string

text \<open>\<open>str\<close> of the \<open>KeyError\<close> raised for a missing key.\<close>

definition key_error :: "string \<Rightarrow> string" where
  "key_error k = CHR 0x27 # k @ [CHR 0x27]"

definition target_tables :: "string list" where
  "target_tables = [''xtstock2025'']"

text \<open>\<open>[col['Name'] for col in ...]\<close>\<close>

fun column_names_of :: "glue_column list \<Rightarrow> string + string list" where
  "column_names_of [] = Inr []"
| "column_names_of (col # cols) =
     (case col_Name col of
        None \<Rightarrow> Inl (key_error ''Name'')
      | Some n \<Rightarrow>
         (case column_names_of cols of
            Inl m \<Rightarrow> Inl m
          | Inr ns \<Rightarrow> Inr (n # ns)))"

text \<open>\<open>{col['Name']: col['Type'] for col in ...}\<close>, as the pairs in the order they are set.\<close>

fun column_type_pairs :: "glue_column list \<Rightarrow> string + (string \<times> string) list" where
  "column_type_pairs [] = Inr []"
| "column_type_pairs (col # cols) =
     (case col_Name col of
        None \<Rightarrow> Inl (key_error ''Name'')
      | Some n \<Rightarrow>
         (case col_Type col of
            None \<Rightarrow> Inl (key_error ''Type'')
          | Some t \<Rightarrow>
             (case column_type_pairs cols of
                Inl m \<Rightarrow> Inl m
              | Inr ps \<Rightarrow> Inr ((n, t) # ps))))"

text \<open>\<open>table['StorageDescriptor']['Columns']\<close>\<close>

definition storage_columns :: "glue_table \<Rightarrow> string + glue_column list" where
  "storage_columns t =
     (case tbl_StorageDescriptor t of
        None \<Rightarrow> Inl (key_error ''StorageDescriptor'')
      | Some None \<Rightarrow> Inl (key_error ''Columns'')
      | Some (Some cols) \<Rightarrow> Inr cols)"

text \<open>The dict display assigned to \<open>metadata[table['Name']]\<close>, evaluated entry by entry.\<close>

definition table_info_of :: "glue_table \<Rightarrow> string + table_info" where
  "table_info_of t =
     (case storage_columns t of
        Inl m \<Rightarrow> Inl m
      | Inr cols \<Rightarrow>
         (case column_names_of cols of
            Inl m \<Rightarrow> Inl m
          | Inr ns \<Rightarrow>
             (let d = (case tbl_Description t of None \<Rightarrow> [] | Some s \<Rightarrow> s) in
              case column_type_pairs cols of
                Inl m \<Rightarrow> Inl m
              | Inr ps \<Rightarrow> Inr \<lparr>columns = ns, description_of = d, column_types = dict ps\<rparr>)))"

text \<open>The loop over \<open>response['TableList']\<close>, with the metadata collected so far.\<close>

fun collect_tables :: "glue_table list \<Rightarrow> metadata \<Rightarrow> string + metadata" where
  "collect_tables [] md = Inr md"
| "collect_tables (t # ts) md =
     (case tbl_Name t of
        None \<Rightarrow> Inl (key_error ''Name'')
      | Some n \<Rightarrow>
         (if n \<in> set target_tables
          then (case table_info_of t of
                  Inl m \<Rightarrow> Inl m
                | Inr info \<Rightarrow> collect_tables ts (dict_set n info md))
          else collect_tables ts md))"

text \<open>The statements of the \<open>try\<close> block up to the loop's end.\<close>

definition fetch_tables :: "glue_outcome \<Rightarrow> string + metadata" where
  "fetch_tables glue =
     (case glue of
        Get_tables_raises m \<Rightarrow> Inl m
      | Get_tables_returns None \<Rightarrow> Inl (key_error ''TableList'')
      | Get_tables_returns (Some ts) \<Rightarrow> collect_tables ts [])"

text \<open>
  \<open>get_table_metadata\<close>. \<open>client\<close> is the outcome of \<open>boto3.client('glue')\<close>, which
  the source calls before its \<open>try\<close>: \<open>Some m\<close> when it raises. The result is the
  messages shown and either the message of an exception that leaves the function (\<open>Inl\<close>)
  or the returned value, \<open>None\<close> or the map.
\<close>

definition get_table_metadata ::
  "string option \<Rightarrow> glue_outcome \<Rightarrow> message list \<times> (string + metadata option)" where
  "get_table_metadata client glue =
     (case client of
        Some m \<Rightarrow> ([], Inl m)
      | None \<Rightarrow>
         (case fetch_tables glue of
            Inl m \<Rightarrow> ([Error (''Error fetching metadata: '' @ m)], Inr None)
          | Inr md \<Rightarrow>
             (if md = [] then [Warning ''No target tables found in the Glue Catalog''] else [],
              Inr (Some md))))"

section \<open>The query generator\<close>

text \<open>
  \<open>json.dumps(metadata, indent=2)\<close> on the values the metadata takes: \<open>None\<close>, strings,
  lists and dicts with string keys. Strings are escaped as the encoder does with
  \<open>ensure_ascii\<close>: the quote, the backslash and every character outside the printable
  ASCII range.
\<close>

datatype json = JNull | JString string | JArray "json list" | JObject "(string \<times> json) list"

abbreviation dq :: char where "dq \<equiv> CHR 0x22"
abbreviation sq :: char where "sq \<equiv> CHR 0x27"
abbreviation bt :: char where "bt \<equiv> CHR 0x60"
abbreviation bs :: char where "bs \<equiv> CHR 0x5C"
abbreviation nl :: char where "nl \<equiv> CHR 0x0A"

definition hex_digit :: "nat \<Rightarrow> char" where
  "hex_digit n = ''0123456789abcdef'' ! (n mod 16)"

definition json_plain :: "char \<Rightarrow> bool" where
  "json_plain c \<longleftrightarrow> 32 \<le> (of_char c :: nat) \<and> (of_char c :: nat) \<le> 126 \<and> c \<noteq> dq \<and> c \<noteq> bs"

definition json_escape_char :: "char \<Rightarrow> string" where
  "json_escape_char c =
     (if c = dq then [bs, dq]
      else if c = bs then [bs, bs]
      else if c = CHR 0x0A then [bs, CHR ''n'']
      else if c = CHR 0x0D then [bs, CHR ''r'']
      else if c = CHR 0x09 then [bs, CHR ''t'']
      else if c = CHR 0x08 then [bs, CHR ''b'']
      else if c = CHR 0x0C then [bs, CHR ''f'']
      else if json_plain c then [c]
      else [bs, CHR ''u'', CHR ''0'', CHR ''0'',
            hex_digit (of_char c div 16), hex_digit (of_char c mod 16)])"

definition json_string :: "string \<Rightarrow> string" where
  "json_string s = dq # concat (map json_escape_char s) @ [dq]"

text \<open>\<open>sep.join(xs)\<close>\<close>

fun join :: "string \<Rightarrow> string list \<Rightarrow> string" where
  "join sep [] = []"
| "join sep [x] = x"
| "join sep (x # y # ys) = x @ sep @ join sep (y # ys)"

definition newline_indent :: "nat \<Rightarrow> string" where
  "newline_indent level = nl # replicate (2 * level) CHR '' ''"

fun dumps :: "nat \<Rightarrow> json \<Rightarrow> string" where
  "dumps level JNull = ''null''"
| "dumps level (JString s) = json_string s"
| "dumps level (JArray vs) =
     (if vs = [] then ''[]''
      else ''['' @ newline_indent (Suc level)
           @ join ('','' @ newline_indent (Suc level)) (map (dumps (Suc level)) vs)
           @ newline_indent level @ '']'')"
| "dumps level (JObject kvs) =
     (if kvs = [] then ''{}''
      else ''{'' @ newline_indent (Suc level)
           @ join ('','' @ newline_indent (Suc level))
               (map (\<lambda>kv. json_string (fst kv) @ '': '' @ dumps (Suc level) (snd kv)) kvs)
           @ newline_indent level @ ''}'')"

definition info_json :: "table_info \<Rightarrow> json" where
  "info_json info =
     JObject [(''columns'', JArray (map JString (columns info))),
              (''description'', JString (description_of info)),
              (''column_types'', JObject (map (\<lambda>ct. (fst ct, JString (snd ct))) (column_types info)))]"

fun metadata_json :: "metadata option \<Rightarrow> json" where
  "metadata_json None = JNull"
| "metadata_json (Some md) = JObject (map (\<lambda>e. (fst e, info_json (snd e))) md)"

text \<open>The lines of the prompt after the question, each without its line break.\<close>

definition prompt_rules_and_examples :: "string list" where
  "prompt_rules_and_examples =
    [[],
     ''        Rules:'',
     ''        1. Use proper SQL Server syntax.'',
     ''        2. Query from the '' @ [bt] @ ''xtstock2025'' @ [bt] @ '' table.'',
     ''        3. Use column names exactly as specified in the schema.'',
     ''        4. If filtering by date, use '' @ [bt] @ ''stocksourcedate'' @ [bt] @ ''.'',
     ''        5. If filtering by stock quantity, use '' @ [bt] @ ''stockqty'' @ [bt] @ ''.'',
     ''        6. Return only the SQL query without any explanation.'',
     ''        '',
     ''        Examples:'',
     [],
     ''        **Example 1:**'',
     ''        Natural language query: '' @ [dq] @ ''Get all stock details for category '' @ [sq] @ ''Apparel'' @ [sq] @ ''.'' @ [dq],
     ''        SQL Query:'',
     ''        '' @ [bt, bt, bt],
     ''        SELECT * FROM xtstock2025 WHERE category = '' @ [sq] @ ''Apparel'' @ [sq] @ '';'',
     ''        '' @ [bt, bt, bt],
     [],
     ''        **Example 2:**'',
     ''        Natural language query: '' @ [dq] @ ''Find total stock quantity for site '' @ [sq] @ ''AdhocFabric'' @ [sq] @ ''.'' @ [dq],
     ''        SQL Query:'',
     ''        '' @ [bt, bt, bt],
     ''        SELECT SUM(stockqty) AS total_stock FROM xtstock2025 WHERE sitename = '' @ [sq] @ ''AdhocFabric'' @ [sq] @ '';'',
     ''        '' @ [bt, bt, bt],
     [],
     ''        **Example 3:**'',
     ''        Natural language query: '' @ [dq] @ ''Show all red articles in size '' @ [sq] @ ''M'' @ [sq] @ '' with stock greater than 10.'' @ [dq],
     ''        SQL Query:'',
     ''        '' @ [bt, bt, bt],
     ''        SELECT * FROM xtstock2025 '',
     ''        WHERE colorname = '' @ [sq] @ ''Red'' @ [sq] @ '' AND sizename = '' @ [sq] @ ''M'' @ [sq] @ '' AND stockqty > 10;'',
     ''        '' @ [bt, bt, bt],
     [],
     ''        **Example 4:**'',
     ''        Natural language query: '' @ [dq] @ ''Get stock value for '' @ [sq] @ ''Blue'' @ [sq] @ '' articles older than 30 days.'' @ [dq],
     ''        SQL Query:'',
     ''        '' @ [bt, bt, bt],
     ''        SELECT SUM(stockvalue) AS total_stock_value FROM xtstock2025 '',
     ''        WHERE colorname = '' @ [sq] @ ''Blue'' @ [sq] @ '' AND stockageindays > 30;'',
     ''        '' @ [bt, bt, bt],
     [],
     ''        **Example 5:**'',
     ''        Natural language query: '' @ [dq] @ ''Find stock added after January 1, 2024.'' @ [dq],
     ''        SQL Query:'',
     ''        '' @ [bt, bt, bt],
     ''        SELECT * FROM xtstock2025 WHERE stocksourcedate > '' @ [sq] @ ''2024-01-01'' @ [sq] @ '';'',
     ''        '' @ [bt, bt, bt],
     [],
     ''        Now generate the SQL query based on the given natural language query.'']"

text \<open>The f-string of the user message.\<close>

definition prompt :: "string \<Rightarrow> metadata option \<Rightarrow> string" where
  "prompt natural_language_query metadata =
     join [nl]
       ([''Given the following database schema:'',
         ''        '' @ dumps 0 (metadata_json metadata),
         [],
         ''        Convert this natural language query to SQL:'',
         ''        '' @ natural_language_query]
        @ prompt_rules_and_examples)"

text \<open>The request passed to \<open>invoke_model\<close>.\<close>

record request =
  modelId :: string
  anthropic_version :: string
  role :: string
  content :: string
  max_tokens :: nat
  temperature :: rat
  top_p :: rat

definition model_request :: "string \<Rightarrow> metadata option \<Rightarrow> request" where
  "model_request natural_language_query metadata =
     \<lparr>modelId = ''anthropic.claude-3-sonnet-20240229-v1:0'',
      anthropic_version = ''bedrock-2023-05-31'',
      role = ''user'',
      content = prompt natural_language_query metadata,
      max_tokens = 500,
      temperature = 1 / 10,
      top_p = 9 / 10\<rparr>"

text \<open>
  What the model call gives: an exception, a body that cannot be read or parsed, or the parsed
  body, of which the source reads \<open>['content'][0]['text']\<close>; either key may be absent.
\<close>

record content_block =
  block_text :: "string option"

datatype model_outcome =
    Invoke_raises string
  | Body_unreadable string
  | Body "content_block list option"

definition first_text :: "model_outcome \<Rightarrow> string + string" where
  "first_text out =
     (case out of
        Invoke_raises m \<Rightarrow> Inl m
      | Body_unreadable m \<Rightarrow> Inl m
      | Body None \<Rightarrow> Inl (key_error ''content'')
      | Body (Some []) \<Rightarrow> Inl ''list index out of range''
      | Body (Some (b # blocks)) \<Rightarrow>
         (case block_text b of
            None \<Rightarrow> Inl (key_error ''text'')
          | Some t \<Rightarrow> Inr (strip t)))"

text \<open>
  \<open>generate_sql_query\<close>. \<open>client\<close> is the outcome of \<open>boto3.client("bedrock-runtime")\<close>,
  called before the \<open>try\<close>; \<open>invoke\<close> is the model service; \<open>traceback\<close> is the text
  \<open>traceback.format_exc()\<close> gives in the handler.
\<close>

definition generate_sql_query ::
  "string option \<Rightarrow> (request \<Rightarrow> model_outcome) \<Rightarrow> string \<Rightarrow> string \<Rightarrow> metadata option
     \<Rightarrow> message list \<times> (string + string option)" where
  "generate_sql_query client invoke traceback natural_language_query metadata =
     (case client of
        Some m \<Rightarrow> ([], Inl m)
      | None \<Rightarrow>
         (case first_text (invoke (model_request natural_language_query metadata)) of
            Inl m \<Rightarrow> ([Error (''Error generating SQL: '' @ m), Error (''Traceback: '' @ traceback)],
                      Inr None)
          | Inr sql \<Rightarrow> ([], Inr (Some sql))))"

section \<open>The page\<close>





text \<open>
  A catalog answer with the target table and one other, a model that answers with a fenced
  statement, and a metadata map with a column name outside ASCII.
\<close>

definition example_catalog :: glue_outcome where
  "example_catalog = Get_tables_returns (Some
     [\<lparr>tbl_Name = Some ''orders'',
       tbl_StorageDescriptor = Some (Some [\<lparr>col_Name = Some ''id'', col_Type = Some ''int''\<rparr>]),
       tbl_Description = None\<rparr>,
      \<lparr>tbl_Name = Some ''xtstock2025'',
       tbl_StorageDescriptor = Some (Some [\<lparr>col_Name = Some ''category'', col_Type = Some ''string''\<rparr>]),
       tbl_Description = Some ''stock''\<rparr>])"

definition fenced_answer :: string where
  "fenced_answer = [bt, bt, bt] @ ''sql'' @ [nl] @ ''SELECT * FROM xtstock2025;'' @ [nl] @ [bt, bt, bt]"

definition fenced_model :: "request \<Rightarrow> model_outcome" where
  "fenced_model req = Body (Some [\<lparr>block_text = Some (fenced_answer @ [nl])\<rparr>])"

definition failing_model :: "request \<Rightarrow> model_outcome" where
  "failing_model req = Invoke_raises ''ThrottlingException''"

definition accented_name :: string where
  "accented_name = ''gr'' @ [CHR 0xF6] @ ''sse''"

definition accented_info :: table_info where
  "accented_info =
     \<lparr>columns = [''category'', accented_name], description_of = [],
      column_types = [(''category'', ''string''), (accented_name, ''string'')]\<rparr>"

definition accented_metadata :: metadata where
  "accented_metadata = [(''xtstock2025'', accented_info)]"


text \<open>A configuration and drivers used as concrete inputs.\<close>

definition example_conf :: sql_server_conn where
  "example_conf = \<lparr>server = Some ''db.example'', database = Some ''stock'',
     uid = Some ''reader'', pwd = Some ''secret''\<rparr>"

definition example_driver :: "int driver" where
  "example_driver = \<lparr>connect_out = None, cursor_out = None, execute_out = None,
     description = Some [(''sku'', 1), (''stockqty'', 3)],
     fetchall_out = Inr [[10, 7], [11, 0]], cursor_exit_out = None,
     commit_out = None, rollback_out = None, close_out = None\<rparr>"

definition example_result :: "(string \<times> int) list list" where
  "example_result = [[(''sku'', 10), (''stockqty'', 7)], [(''sku'', 11), (''stockqty'', 0)]]"

definition failing_driver :: "int driver" where
  "failing_driver = example_driver\<lparr>execute_out := Some ''Invalid object name''\<rparr>"

text \<open>
  A driver for a statement that produces no result set, as plain \<open>INSERT\<close>, \<open>UPDATE\<close> and
  \<open>DELETE\<close> statements do: \<open>cursor.description\<close> is \<open>None\<close> and \<open>fetchall\<close> raises.
\<close>

definition no_result_set_driver :: "int driver" where
  "no_result_set_driver = \<lparr>connect_out = None, cursor_out = None, execute_out = None,
     description = None,
     fetchall_out = Inl ''Statement not executed or executed statement has no resultset'',
     cursor_exit_out = None, commit_out = None, rollback_out = None, close_out = None\<rparr>"

text \<open>A driver for \<open>SELECT a, b, a FROM t\<close> on a table with the one row 1, 2, 3.\<close>

definition repeated_name_driver :: "int driver" where
  "repeated_name_driver = \<lparr>connect_out = None, cursor_out = None, execute_out = None,
     description = Some [(''a'', 3), (''b'', 3), (''a'', 3)],
     fetchall_out = Inr [[1, 2, 3]], cursor_exit_out = None,
     commit_out = None, rollback_out = None, close_out = None\<rparr>"


section \<open>Properties of the query executor\<close>

lemma invocations_simps:
  "invocations e [] = 0"
  "invocations e (x # xs) = (if x = e then Suc (invocations e xs) else invocations e xs)"
  "invocations e (xs @ ys) = invocations e xs + invocations e ys"
  by (simp_all add: invocations_def)

lemma with_body_no_conn_events:
  "invocations Rollback (fst (with_body d q p)) = 0"
  "invocations Close (fst (with_body d q p)) = 0"
  "invocations Connect (fst (with_body d q p)) = 0"
  by (simp_all add: with_body_def invocations_simps Let_def split: option.splits sum.splits)

lemma with_body_commit:
  "is_mutation q \<Longrightarrow> snd (with_body d q p) = Inr rows \<Longrightarrow> invocations Commit (fst (with_body d q p)) = 1"
  by (auto simp add: with_body_def invocations_simps Let_def split: option.splits sum.splits)

lemma cursor_block_no_conn_events:
  "invocations Rollback (fst (cursor_block d q p)) = 0"
  "invocations Close (fst (cursor_block d q p)) = 0"
  "invocations Connect (fst (cursor_block d q p)) = 0"
  using with_body_no_conn_events [of d q p]
  by (auto simp add: cursor_block_def invocations_simps split: option.splits prod.splits)

lemma cursor_block_commit:
  "is_mutation q \<Longrightarrow> snd (cursor_block d q p) = Inr rows \<Longrightarrow> invocations Commit (fst (cursor_block d q p)) = 1"
  using with_body_commit [of q d p rows]
  by (auto simp add: cursor_block_def invocations_simps split: option.splits prod.splits)

lemma inner_try_close:
  "invocations Close (fst (inner_try d q p)) = 1"
  using cursor_block_no_conn_events(2) [of d q p]
  by (auto simp add: inner_try_def invocations_simps split: option.splits prod.splits sum.splits)


lemma inner_try_ok:
  "snd (cursor_block d q p) = Inr rows \<Longrightarrow> fst (inner_try d q p) = fst (cursor_block d q p) @ [Close]"
  by (auto simp add: inner_try_def invocations_simps split: option.splits prod.splits sum.splits)

lemma execute_opened:
  "opened conf d \<Longrightarrow> fst (execute_sql_query conf d q p) = Connect # fst (inner_try d q p)"
  by (auto simp add: execute_sql_query_def opened_def split: option.splits prod.splits sum.splits)

text \<open>
  Claim C5. Whenever the connection was established, \<open>conn.close()\<close> is invoked exactly
  once, whatever the driver operations in between do (normal return, execution error, rollback
  failure).
\<close>

theorem connection_closed_on_every_path:
  "opened conf d \<Longrightarrow> invocations Close (fst (execute_sql_query conf d q p)) = 1"
  using inner_try_close [of d q p] by (simp add: execute_opened invocations_simps)

text \<open>
  Claim C9. When any of server, database, username or password is missing (unset or empty),
  the call raises the wrapped exception and no driver operation is invoked: no connection is
  opened and no statement is executed.
\<close>

theorem missing_parameters_raise_before_connect:
  "\<not> (truthy (server conf) \<and> truthy (database conf) \<and> truthy (uid conf) \<and> truthy (pwd conf)) \<Longrightarrow>
   execute_sql_query conf d query params = ([], Inl ''Database connection error: Missing database connection parameters'')"
  by (simp add: execute_sql_query_def)

text \<open>
  A mutating statement is committed once, and not rolled back, when nothing under the cursor
  block raises; that needs a statement with a result set, since the column names are read from
  \<open>cursor.description\<close> and the rows are fetched before the commit.
\<close>

lemma commit_once_when_block_returns:
  assumes "is_mutation q" "opened conf d" "snd (cursor_block d q p) = Inr rows"
  shows "invocations Commit (fst (execute_sql_query conf d q p)) = 1
       \<and> invocations Rollback (fst (execute_sql_query conf d q p)) = 0"
  using assms cursor_block_commit [of q d p rows] cursor_block_no_conn_events(1) [of d q p]
  by (simp add: execute_opened inner_try_ok invocations_simps)

lemma block_returns_needs_result_set:
  "snd (cursor_block d q p) = Inr rows \<Longrightarrow>
   execute_out d = None \<and> (\<exists>cols. description d = Some cols) \<and> (\<exists>rs. fetchall_out d = Inr rs)"
  by (auto simp add: cursor_block_def with_body_def Let_def
           split: option.splits sum.splits prod.splits if_splits)

lemma update_is_mutation: "is_mutation ''UPDATE t SET x=1''"
  by code_simp

lemma no_result_set_never_commits:
  assumes "opened conf d" "cursor_out d = None" "execute_out d = None" "description d = None"
  shows "invocations Commit (fst (execute_sql_query conf d q p)) = 0
       \<and> invocations Rollback (fst (execute_sql_query conf d q p)) = 1"
  using assms
  by (auto simp add: execute_opened inner_try_def cursor_block_def with_body_def invocations_simps
           split: option.splits)

text \<open>
  Claim C1. A mutating statement whose execution raises no error has its commit invoked exactly
  once and no rollback. The code does not do this for the statement \<open>UPDATE t SET x=1\<close>, which
  produces no result set: \<open>cursor.execute\<close> returns, reading the column names from
  \<open>cursor.description\<close> raises, and the connection is rolled back once and never committed.
\<close>

theorem plain_update_rolled_back_never_committed:
  "is_mutation ''UPDATE t SET x=1''
   \<and> execute_out no_result_set_driver = None
   \<and> execute_sql_query example_conf no_result_set_driver ''UPDATE t SET x=1'' None
       = ([Connect, Cursor, Execute ''UPDATE t SET x=1'' None, CursorExit, Rollback, Close],
          Inl (''Database connection error: Error executing query: ''
               @ [CHR 0x27] @ ''NoneType'' @ [CHR 0x27] @ '' object is not iterable''))
   \<and> invocations Commit
         (fst (execute_sql_query example_conf no_result_set_driver ''UPDATE t SET x=1'' None)) = 0
   \<and> invocations Rollback
         (fst (execute_sql_query example_conf no_result_set_driver ''UPDATE t SET x=1'' None)) = 1"
  using update_is_mutation
  by (simp add: execute_sql_query_def inner_try_def cursor_block_def with_body_def
        example_conf_def no_result_set_driver_def invocations_simps)

lemma execute_failure_raises_in_block:
  "cursor_out d = None \<Longrightarrow> execute_out d = Some m \<Longrightarrow> isl (snd (cursor_block d q p))"
  by (simp add: cursor_block_def with_body_def split: option.splits)




lemma map_of_dict_set: "map_of (dict_set k v d) = (map_of d)(k \<mapsto> v)"
  by (induction d) (auto simp add: fun_eq_iff)

lemma keys_dict_set: "fst ` set (dict_set k v d) = insert k (fst ` set d)"
proof (induction d)
  case Nil
  show ?case by simp
next
  case (Cons a d)
  obtain k' v' where a: "a = (k', v')" by (cases a)
  show ?case using Cons by (cases "k' = k") (simp_all add: a insert_commute)
qed

lemma distinct_dict_set: "distinct (map fst d) \<Longrightarrow> distinct (map fst (dict_set k v d))"
  by (induction d) (auto simp add: keys_dict_set)

lemma foldl_dict_set:
  "map_of (foldl (\<lambda>d (k, v). dict_set k v d) d kvs) = map_of (rev kvs @ d)
   \<and> fst ` set (foldl (\<lambda>d (k, v). dict_set k v d) d kvs) = fst ` set kvs \<union> fst ` set d
   \<and> (distinct (map fst d) \<longrightarrow> distinct (map fst (foldl (\<lambda>d (k, v). dict_set k v d) d kvs)))"
proof (induction kvs arbitrary: d)
  case Nil
  show ?case by simp
next
  case (Cons kv kvs)
  obtain k v where kv: "kv = (k, v)" by (cases kv)
  show ?case using Cons [of "dict_set k v d"]
    by (auto simp add: kv map_of_dict_set keys_dict_set distinct_dict_set map_add_def fun_eq_iff
             split: option.splits)
qed

lemma map_of_dict: "map_of (dict kvs) = map_of (rev kvs)"
  using foldl_dict_set [of "[]" kvs] by (simp add: dict_def)

lemma keys_dict: "fst ` set (dict kvs) = fst ` set kvs"
  using foldl_dict_set [of "[]" kvs] by (simp add: dict_def)

lemma distinct_dict: "distinct (map fst (dict kvs))"
  using foldl_dict_set [of "[]" kvs] by (simp add: dict_def)

lemma map_of_rev_last:
  "j < length kvs \<Longrightarrow> \<forall>k. j < k \<and> k < length kvs \<longrightarrow> fst (kvs ! k) \<noteq> fst (kvs ! j) \<Longrightarrow>
   map_of (rev kvs) (fst (kvs ! j)) = Some (snd (kvs ! j))"
proof (induction kvs rule: rev_induct)
  case Nil
  then show ?case by simp
next
  case (snoc x xs)
  show ?case
  proof (cases "j = length xs")
    case True
    then show ?thesis by (cases x) simp
  next
    case False
    with snoc.prems have j: "j < length xs" by simp
    have neq: "fst x \<noteq> fst (xs ! j)"
      using snoc.prems(2) [rule_format, of "length xs"] j by (simp add: nth_append)
    have "\<forall>k. j < k \<and> k < length xs \<longrightarrow> fst (xs ! k) \<noteq> fst (xs ! j)"
    proof (intro allI impI)
      fix k assume k: "j < k \<and> k < length xs"
      then show "fst (xs ! k) \<noteq> fst (xs ! j)"
        using snoc.prems(2) [rule_format, of k] j by (simp add: nth_append)
    qed
    from snoc.IH [OF j this] neq j show ?thesis by (cases x) (auto simp add: nth_append)
  qed
qed

lemma dict_set_fresh: "k \<notin> fst ` set d \<Longrightarrow> dict_set k v d = d @ [(k, v)]"
  by (induction d) auto

lemma foldl_dict_set_distinct:
  "distinct (map fst (d @ kvs)) \<Longrightarrow> foldl (\<lambda>d (k, v). dict_set k v d) d kvs = d @ kvs"
proof (induction kvs arbitrary: d)
  case Nil
  show ?case by simp
next
  case (Cons kv kvs)
  obtain k v where kv: "kv = (k, v)" by (cases kv)
  from Cons.prems have f: "k \<notin> fst ` set d" by (auto simp add: kv)
  from Cons.prems have "distinct (map fst ((d @ [(k, v)]) @ kvs))" by (simp add: kv)
  from Cons.IH [OF this] f show ?case by (simp add: kv dict_set_fresh)
qed

lemma dict_distinct: "distinct (map fst kvs) \<Longrightarrow> dict kvs = kvs"
  using foldl_dict_set_distinct [of "[]" kvs] by (simp add: dict_def)

lemma dict_zip_lookup:
  assumes "j < length names" "j < length row"
    "\<forall>k. j < k \<and> k < length names \<and> k < length row \<longrightarrow> names ! k \<noteq> names ! j"
  shows "map_of (dict (zip names row)) (names ! j) = Some (row ! j)"
  using map_of_rev_last [of j "zip names row"] assms by (simp add: map_of_dict)

lemma dict_zip_keys:
  "fst ` set (dict (zip names row)) = set (take (length row) names)"
proof -
  have "take (min (length names) (length row)) names = take (length row) names"
    by (cases "length row \<le> length names") (simp_all add: min_def)
  then show ?thesis
    using keys_dict [of "zip names row"] by (simp add: map_fst_zip_take flip: set_map)
qed

lemma execute_returns:
  assumes "snd (execute_sql_query conf d q p) = Inr res"
  shows "\<exists>cols rows. description d = Some cols \<and> fetchall_out d = Inr rows
           \<and> res = map (\<lambda>row. dict (zip (map fst cols) row)) rows"
  using assms
  by (auto simp add: execute_sql_query_def inner_try_def cursor_block_def with_body_def Let_def
           split: option.splits prod.splits sum.splits if_splits)

text \<open>
  Claim C6, as the code has it. A call that returns normally returns one element per fetched
  row, in order. The keys of an element are the descriptor's column names for which the row has
  a value (all of them for a row with one value per column), each key once, and a name is
  paired with the row's value at the last column that bears it. When the column names are
  distinct and the row has one value per column, the element is the names paired with the
  row's values in descriptor order.
\<close>

theorem rows_as_last_wins_column_mappings:
  assumes "snd (execute_sql_query conf d q p) = Inr res"
  shows "\<exists>cols rows. description d = Some cols \<and> fetchall_out d = Inr rows
     \<and> length res = length rows
     \<and> (\<forall>i < length rows.
           fst ` set (res ! i) = set (take (length (rows ! i)) (map fst cols))
         \<and> distinct (map fst (res ! i))
         \<and> (\<forall>j. j < length cols \<and> j < length (rows ! i)
                 \<and> (\<forall>k. j < k \<and> k < length cols \<and> k < length (rows ! i)
                        \<longrightarrow> fst (cols ! k) \<noteq> fst (cols ! j)) \<longrightarrow>
               map_of (res ! i) (fst (cols ! j)) = Some (rows ! i ! j))
         \<and> (distinct (map fst cols) \<and> length (rows ! i) = length cols \<longrightarrow>
               res ! i = zip (map fst cols) (rows ! i)))"
proof -
  from execute_returns [OF assms] obtain cols rows where
    d: "description d = Some cols" and f: "fetchall_out d = Inr rows"
    and r: "res = map (\<lambda>row. dict (zip (map fst cols) row)) rows" by blast
  have "fst ` set (res ! i) = set (take (length (rows ! i)) (map fst cols))
         \<and> distinct (map fst (res ! i))
         \<and> (\<forall>j. j < length cols \<and> j < length (rows ! i)
                 \<and> (\<forall>k. j < k \<and> k < length cols \<and> k < length (rows ! i)
                        \<longrightarrow> fst (cols ! k) \<noteq> fst (cols ! j)) \<longrightarrow>
               map_of (res ! i) (fst (cols ! j)) = Some (rows ! i ! j))
         \<and> (distinct (map fst cols) \<and> length (rows ! i) = length cols \<longrightarrow>
               res ! i = zip (map fst cols) (rows ! i))"
    if i: "i < length rows" for i
  proof -
    have ri: "res ! i = dict (zip (map fst cols) (rows ! i))" using r i by simp
    have l: "map_of (res ! i) (fst (cols ! j)) = Some (rows ! i ! j)"
      if "j < length cols" "j < length (rows ! i)"
         "\<forall>k. j < k \<and> k < length cols \<and> k < length (rows ! i)
              \<longrightarrow> fst (cols ! k) \<noteq> fst (cols ! j)" for j
      using dict_zip_lookup [of j "map fst cols" "rows ! i"] that by (simp add: ri)
    have z: "res ! i = zip (map fst cols) (rows ! i)"
      if "distinct (map fst cols)" "length (rows ! i) = length cols"
      using that dict_distinct [of "zip (map fst cols) (rows ! i)"] by (simp add: ri)
    have k: "fst ` set (res ! i) = set (take (length (rows ! i)) (map fst cols))"
      using dict_zip_keys [of "map fst cols" "rows ! i"] by (simp add: ri)
    have e: "distinct (map fst (res ! i))" by (simp add: ri distinct_dict)
    from k e l z show ?thesis by blast
  qed
  note per = this
  have len: "length res = length rows" using r by simp
  from d f len per show ?thesis by blast
qed

text \<open>
  With a column name borne by two columns the first of its values is lost: the row 1, 2, 3 of
  the columns \<open>a\<close>, \<open>b\<close>, \<open>a\<close> comes back as \<open>a\<close> to 3 and \<open>b\<close> to 2, so the first
  column's name is not paired with the first value.
\<close>

theorem repeated_column_name_keeps_last_value:
  "execute_sql_query example_conf repeated_name_driver ''SELECT a, b, a FROM t'' None
     = ([Connect, Cursor, Execute ''SELECT a, b, a FROM t'' None, Fetchall, CursorExit, Close],
        Inr [[(''a'', 3), (''b'', 2)]])
   \<and> description repeated_name_driver = Some [(''a'', 3), (''b'', 3), (''a'', 3)]
   \<and> fetchall_out repeated_name_driver = Inr [[1, 2, 3]]
   \<and> map_of [(''a'', 3::int), (''b'', 2)] (fst ([(''a'', 3::int), (''b'', 3), (''a'', 3)] ! 0))
       \<noteq> Some ([1, 2, 3] ! 0)"
proof -
  have "\<not> is_mutation ''SELECT a, b, a FROM t''" by code_simp
  then show ?thesis
    by (simp add: execute_sql_query_def inner_try_def cursor_block_def with_body_def
          example_conf_def repeated_name_driver_def dict_def)
qed

lemma example_opened: "opened example_conf example_driver" by (simp add: opened_def example_conf_def example_driver_def)
lemma failing_opened: "opened example_conf failing_driver" by (simp add: opened_def example_conf_def example_driver_def failing_driver_def)


theorem connection_closed_on_every_path_witness:
  "opened example_conf failing_driver
   \<and> invocations Close (fst (execute_sql_query example_conf failing_driver ''SELECT 1'' None)) = 1"
  using connection_closed_on_every_path [OF failing_opened] failing_opened by simp

theorem missing_parameters_raise_before_connect_witness:
  "execute_sql_query (example_conf\<lparr>pwd := None\<rparr>) example_driver ''SELECT 1'' None
     = ([], Inl ''Database connection error: Missing database connection parameters'')"
  using missing_parameters_raise_before_connect [of "example_conf\<lparr>pwd := None\<rparr>" example_driver "''SELECT 1''" None] by simp

lemma example_returns:
  "snd (execute_sql_query example_conf example_driver ''SELECT sku, stockqty FROM xtstock2025'' None)
     = Inr example_result"
proof -
  have "\<not> is_mutation ''SELECT sku, stockqty FROM xtstock2025''" by code_simp
  then show ?thesis
    by (simp add: execute_sql_query_def inner_try_def cursor_block_def with_body_def
          example_driver_def example_conf_def example_result_def dict_def)
qed

theorem rows_as_last_wins_column_mappings_witness:
  "snd (execute_sql_query example_conf example_driver ''SELECT sku, stockqty FROM xtstock2025'' None)
     = Inr example_result
   \<and> (\<exists>cols rows. description example_driver = Some cols \<and> fetchall_out example_driver = Inr rows
     \<and> length example_result = length rows
     \<and> (\<forall>i < length rows.
           fst ` set (example_result ! i) = set (take (length (rows ! i)) (map fst cols))
         \<and> distinct (map fst (example_result ! i))
         \<and> (\<forall>j. j < length cols \<and> j < length (rows ! i)
                 \<and> (\<forall>k. j < k \<and> k < length cols \<and> k < length (rows ! i)
                        \<longrightarrow> fst (cols ! k) \<noteq> fst (cols ! j)) \<longrightarrow>
               map_of (example_result ! i) (fst (cols ! j)) = Some (rows ! i ! j))
         \<and> (distinct (map fst cols) \<and> length (rows ! i) = length cols \<longrightarrow>
               example_result ! i = zip (map fst cols) (rows ! i))))"
  by (rule conjI [OF example_returns rows_as_last_wins_column_mappings [OF example_returns]])

section \<open>Properties of the metadata fetcher\<close>

lemma collect_tables_keys:
  "collect_tables ts md = Inr md' \<Longrightarrow> fst ` set md \<subseteq> set target_tables \<Longrightarrow>
   fst ` set md' \<subseteq> set target_tables"
proof (induction ts arbitrary: md)
  case Nil
  then show ?case by simp
next
  case (Cons t ts)
  show ?case
  proof (cases "tbl_Name t")
    case None
    with Cons.prems show ?thesis by simp
  next
    case (Some n)
    show ?thesis
    proof (cases "n \<in> set target_tables")
      case False
      with Cons Some show ?thesis by simp
    next
      case True
      with Cons.prems(1) Some obtain info where i: "table_info_of t = Inr info"
        and c: "collect_tables ts (dict_set n info md) = Inr md'"
        by (auto split: sum.splits)
      have "fst ` set (dict_set n info md) \<subseteq> set target_tables"
        using True Cons.prems(2) by (simp add: keys_dict_set)
      with Cons.IH [OF c] show ?thesis .
    qed
  qed
qed

lemma get_table_metadata_keys:
  "snd (get_table_metadata client glue) = Inr (Some md) \<Longrightarrow> fst ` set md \<subseteq> set target_tables"
  using collect_tables_keys [of _ "[]" md]
  by (auto simp add: get_table_metadata_def fetch_tables_def
           split: option.splits sum.splits glue_outcome.splits)

text \<open>
  Claim C7. Whatever the catalog call gives, a returned metadata map has no key outside the
  target table list, and a warning is shown exactly when the function returns the empty map.
\<close>

theorem metadata_only_target_tables_warning_iff_empty:
  "(\<forall>md t. snd (get_table_metadata client glue) = Inr (Some md) \<longrightarrow>
       t \<notin> set target_tables \<longrightarrow> t \<notin> fst ` set md)
   \<and> ((\<exists>w. Warning w \<in> set (fst (get_table_metadata client glue)))
        \<longleftrightarrow> snd (get_table_metadata client glue) = Inr (Some []))"
proof (intro conjI allI impI)
  fix md t
  assume "snd (get_table_metadata client glue) = Inr (Some md)" "t \<notin> set target_tables"
  then show "t \<notin> fst ` set md" using get_table_metadata_keys by blast
next
  show "(\<exists>w. Warning w \<in> set (fst (get_table_metadata client glue)))
        \<longleftrightarrow> snd (get_table_metadata client glue) = Inr (Some [])"
    by (auto simp add: get_table_metadata_def split: option.splits sum.splits)
qed

lemma example_catalog_result:
  "get_table_metadata None example_catalog =
     ([], Inr (Some [(''xtstock2025'',
        \<lparr>columns = [''category''], description_of = ''stock'',
         column_types = [(''category'', ''string'')]\<rparr>)]))"
  by (simp add: get_table_metadata_def fetch_tables_def example_catalog_def target_tables_def
        table_info_of_def storage_columns_def dict_def)

theorem metadata_only_target_tables_warning_iff_empty_witness:
  "snd (get_table_metadata None example_catalog) =
     Inr (Some [(''xtstock2025'',
        \<lparr>columns = [''category''], description_of = ''stock'',
         column_types = [(''category'', ''string'')]\<rparr>)])
   \<and> ''orders'' \<notin> set target_tables
   \<and> ''orders'' \<notin> fst ` set [(''xtstock2025'',
        \<lparr>columns = [''category''], description_of = ''stock'',
         column_types = [(''category'', ''string'')]\<rparr>)]
   \<and> \<not> (\<exists>w. Warning w \<in> set (fst (get_table_metadata None example_catalog)))"
  using metadata_only_target_tables_warning_iff_empty [of None example_catalog] example_catalog_result
  by (simp add: target_tables_def)

text \<open>
  Both functions construct their client before the \<open>try\<close>: an exception there leaves the
  function.
\<close>

theorem client_construction_failure_propagates:
  "snd (get_table_metadata (Some ''You must specify a region.'') example_catalog)
     = Inl ''You must specify a region.''
   \<and> snd (generate_sql_query (Some ''You must specify a region.'') fenced_model []
            ''Get all stock'' None)
     = Inl ''You must specify a region.''"
  by (simp add: get_table_metadata_def generate_sql_query_def)

text \<open>
  Claim C10, as the code has it. Once the service client was constructed, neither function
  raises: for every outcome of the catalog call, of the model call and of reading their
  answers, each returns its value, or shows an error message and returns \<open>None\<close>.
\<close>

theorem fetcher_and_generator_return_once_client_built:
  "(\<exists>msgs r. get_table_metadata None glue = (msgs, Inr r)
       \<and> (r = None \<longrightarrow> (\<exists>m. Error m \<in> set msgs)))
   \<and> (\<exists>msgs r. generate_sql_query None invoke traceback q md = (msgs, Inr r)
       \<and> (r = None \<longrightarrow> (\<exists>m. Error m \<in> set msgs)))"
  by (auto simp add: get_table_metadata_def generate_sql_query_def split: sum.splits)

theorem fetcher_and_generator_return_once_client_built_witness:
  "get_table_metadata None (Get_tables_raises ''EndpointConnectionError'')
     = ([Error ''Error fetching metadata: EndpointConnectionError''], Inr None)
   \<and> generate_sql_query None failing_model ''tb'' ''Get all stock'' None
     = ([Error ''Error generating SQL: ThrottlingException'', Error ''Traceback: tb''], Inr None)
   \<and> (\<exists>msgs r. get_table_metadata None (Get_tables_raises ''EndpointConnectionError'') = (msgs, Inr r)
       \<and> (r = None \<longrightarrow> (\<exists>m. Error m \<in> set msgs)))"
  using fetcher_and_generator_return_once_client_built [of "Get_tables_raises ''EndpointConnectionError''" failing_model "''tb''" "''Get all stock''" None]
  by (simp add: get_table_metadata_def generate_sql_query_def fetch_tables_def first_text_def failing_model_def)

section \<open>Properties of the query generator\<close>

lemma lstrip_decomp: "\<exists>l. s = l @ lstrip s \<and> (\<forall>c \<in> set l. py_isspace c)"
proof -
  have "s = takeWhile py_isspace s @ lstrip s" by (simp add: lstrip_def)
  moreover have "\<forall>c \<in> set (takeWhile py_isspace s). py_isspace c" by (auto dest: set_takeWhileD)
  ultimately show ?thesis by blast
qed

lemma rstrip_decomp: "\<exists>r. s = rstrip s @ r \<and> (\<forall>c \<in> set r. py_isspace c)"
proof -
  have "rev (takeWhile py_isspace (rev s) @ dropWhile py_isspace (rev s)) = s" by simp
  then have "rstrip s @ rev (takeWhile py_isspace (rev s)) = s"
    by (simp only: rev_append rstrip_def)
  moreover have "\<forall>c \<in> set (rev (takeWhile py_isspace (rev s))). py_isspace c"
    by (auto dest: set_takeWhileD)
  ultimately show ?thesis by metis
qed

lemma strip_decomp:
  "\<exists>l r. s = l @ strip s @ r \<and> (\<forall>c \<in> set l. py_isspace c) \<and> (\<forall>c \<in> set r. py_isspace c)"
proof -
  obtain l where l: "s = l @ lstrip s" "\<forall>c \<in> set l. py_isspace c"
    using lstrip_decomp by blast
  obtain r where r: "lstrip s = rstrip (lstrip s) @ r" "\<forall>c \<in> set r. py_isspace c"
    using rstrip_decomp [of "lstrip s"] by blast
  have "l @ lstrip s = l @ rstrip (lstrip s) @ r" using r(1) by (rule arg_cong)
  with l(1) have "s = l @ strip s @ r" unfolding strip_def by (rule trans)
  with l(2) r(2) show ?thesis by blast
qed

lemma rstrip_last: "rstrip s \<noteq> [] \<Longrightarrow> \<not> py_isspace (last (rstrip s))"
  using hd_dropWhile [of py_isspace "rev s"] by (simp add: rstrip_def last_rev)

lemma rstrip_hd: "rstrip s \<noteq> [] \<Longrightarrow> hd (rstrip s) = hd s"
proof -
  assume n: "rstrip s \<noteq> []"
  obtain r where "s = rstrip s @ r" using rstrip_decomp by blast
  then have "hd s = hd (rstrip s @ r)" by (rule arg_cong)
  also have "\<dots> = hd (rstrip s)" using n by simp
  finally show ?thesis by (rule sym)
qed

lemma strip_ends:
  assumes "strip s \<noteq> []"
  shows "\<not> py_isspace (hd (strip s)) \<and> \<not> py_isspace (last (strip s))"
proof -
  from assms have n: "lstrip s \<noteq> []" by (auto simp add: strip_def rstrip_def)
  then have "\<not> py_isspace (hd (lstrip s))" using hd_dropWhile [of py_isspace s] by (simp add: lstrip_def)
  moreover have "hd (strip s) = hd (lstrip s)" using assms rstrip_hd by (simp add: strip_def)
  ultimately show ?thesis using assms rstrip_last [of "lstrip s"] by (simp add: strip_def)
qed

text \<open>
  Claim C4, as the code has it. For a model response whose first content block has a text, the
  generator returns that text with the surrounding whitespace removed and nothing else: the
  text is the result between two runs of whitespace, and a non-empty result neither starts nor
  ends with whitespace. Code fences in the text are not touched.
\<close>

theorem generator_returns_stripped_first_text:
  assumes "invoke (model_request q md) = Body (Some (b # blocks))" "block_text b = Some t"
  shows "generate_sql_query None invoke traceback q md = ([], Inr (Some (strip t)))
     \<and> (\<exists>l r. t = l @ strip t @ r \<and> (\<forall>c \<in> set l. py_isspace c) \<and> (\<forall>c \<in> set r. py_isspace c))
     \<and> (strip t \<noteq> [] \<longrightarrow> \<not> py_isspace (hd (strip t)) \<and> \<not> py_isspace (last (strip t)))"
  using assms strip_decomp [of t] strip_ends [of t]
  by (simp add: generate_sql_query_def first_text_def)

lemma strip_fenced: "strip (fenced_answer @ [nl]) = fenced_answer"
  by (simp add: fenced_answer_def strip_def lstrip_def rstrip_def py_isspace_def)

text \<open>
  A completion wrapped in a code fence comes back with the fence.
\<close>

theorem fenced_completion_returned_with_fences:
  "snd (generate_sql_query None fenced_model [] ''Get all stock'' None) = Inr (Some fenced_answer)
   \<and> prefix [bt, bt, bt] fenced_answer \<and> suffix [bt, bt, bt] fenced_answer"
proof -
  have "suffix [bt, bt, bt] fenced_answer"
    unfolding fenced_answer_def suffix_def by (intro exI [of _ "[bt, bt, bt] @ ''sql'' @ [nl] @ ''SELECT * FROM xtstock2025;'' @ [nl]"]) simp
  moreover have "prefix [bt, bt, bt] fenced_answer" by (simp add: fenced_answer_def)
  ultimately show ?thesis
    by (simp add: generate_sql_query_def first_text_def fenced_model_def strip_fenced)
qed

lemma fenced_model_first: "fenced_model (model_request ''Get all stock'' None)
    = Body (Some (\<lparr>block_text = Some (fenced_answer @ [nl])\<rparr> # []))"
  by (simp add: fenced_model_def)

theorem generator_returns_stripped_first_text_witness:
  "fenced_model (model_request ''Get all stock'' None)
      = Body (Some (\<lparr>block_text = Some (fenced_answer @ [nl])\<rparr> # []))
   \<and> block_text \<lparr>block_text = Some (fenced_answer @ [nl])\<rparr> = Some (fenced_answer @ [nl])
   \<and> generate_sql_query None fenced_model [] ''Get all stock'' None = ([], Inr (Some fenced_answer))"
  using generator_returns_stripped_first_text [where invoke = fenced_model and q = "''Get all stock''" and md = None
              and b = "\<lparr>block_text = Some (fenced_answer @ [nl])\<rparr>" and blocks = "[]"
              and t = "fenced_answer @ [nl]" and traceback = "[]"]
        fenced_model_first
  by (simp add: strip_fenced)

section \<open>Properties of the page\<close>











section \<open>The prompt\<close>

lemma sublist_trans: "sublist xs ys \<Longrightarrow> sublist ys zs \<Longrightarrow> sublist xs zs"
  by (rule sublist_order.order.trans)

lemma sublist_join: "x \<in> set xs \<Longrightarrow> sublist x (join sep xs)"
proof (induction sep xs rule: join.induct)
  case (1 sep)
  then show ?case by simp
next
  case (2 sep y)
  then show ?case by simp
next
  case (3 sep y z zs)
  show ?case
  proof (cases "x = y")
    case True
    then show ?thesis by simp
  next
    case False
    with 3 have "sublist x (join sep (z # zs))" by simp
    then have "sublist x ((y @ sep) @ join sep (z # zs))"
      by (meson sublist_append_leftI sublist_trans)
    then show ?thesis by simp
  qed
qed

lemma escape_plain: "json_plain c \<Longrightarrow> json_escape_char c = [c]"
  by (auto simp add: json_escape_char_def json_plain_def)

lemma json_string_plain: "\<forall>c \<in> set s. json_plain c \<Longrightarrow> json_string s = dq # s @ [dq]"
proof -
  assume p: "\<forall>c \<in> set s. json_plain c"
  then have "concat (map json_escape_char s) = s"
    by (induction s) (simp_all add: escape_plain)
  then show ?thesis by (simp add: json_string_def)
qed

lemma sublist_json_string: "\<forall>c \<in> set s. json_plain c \<Longrightarrow> sublist s (json_string s)"
proof -
  assume "\<forall>c \<in> set s. json_plain c"
  then have "json_string s = [dq] @ s @ [dq]" by (simp add: json_string_plain)
  then show ?thesis by (simp only: sublist_appendI)
qed

lemma dumps_array_elem: "v \<in> set vs \<Longrightarrow> sublist (dumps (Suc l) v) (dumps l (JArray vs))"
proof -
  assume v: "v \<in> set vs"
  then have "dumps (Suc l) v \<in> set (map (dumps (Suc l)) vs)" by simp
  then have "sublist (dumps (Suc l) v)
     (join ('','' @ newline_indent (Suc l)) (map (dumps (Suc l)) vs))" by (rule sublist_join)
  then have "sublist (dumps (Suc l) v)
     ((''['' @ newline_indent (Suc l)) @ join ('','' @ newline_indent (Suc l)) (map (dumps (Suc l)) vs)
        @ (newline_indent l @ '']''))"
    by (meson sublist_appendI sublist_trans)
  with v show ?thesis by auto
qed

lemma dumps_object_entry:
  assumes "(k, v) \<in> set kvs"
  shows "sublist (json_string k @ '': '' @ dumps (Suc l) v) (dumps l (JObject kvs))"
proof -
  let ?f = "\<lambda>kv. json_string (fst kv) @ '': '' @ dumps (Suc l) (snd kv)"
  have "?f (k, v) \<in> set (map ?f kvs)" using assms by (simp add: rev_image_eqI)
  then have "sublist (?f (k, v)) (join ('','' @ newline_indent (Suc l)) (map ?f kvs))"
    by (rule sublist_join)
  then have "sublist (?f (k, v))
     ((''{'' @ newline_indent (Suc l)) @ join ('','' @ newline_indent (Suc l)) (map ?f kvs)
        @ (newline_indent l @ ''}''))"
    by (meson sublist_appendI sublist_trans)
  with assms show ?thesis by auto
qed

lemma dumps_object_key:
  "(k, v) \<in> set kvs \<Longrightarrow> sublist (json_string k) (dumps l (JObject kvs))"
  by (meson dumps_object_entry sublist_append_rightI sublist_trans)

lemma dumps_object_value:
  "(k, v) \<in> set kvs \<Longrightarrow> sublist (dumps (Suc l) v) (dumps l (JObject kvs))"
proof -
  assume "(k, v) \<in> set kvs"
  then have b: "sublist (json_string k @ '': '' @ dumps (Suc l) v) (dumps l (JObject kvs))"
    by (rule dumps_object_entry)
  have "sublist (dumps (Suc l) v) ((json_string k @ '': '') @ dumps (Suc l) v)"
    by (rule sublist_append_leftI)
  then have a: "sublist (dumps (Suc l) v) (json_string k @ '': '' @ dumps (Suc l) v)"
    by (simp only: append_assoc)
  from a b show ?thesis by (rule sublist_trans)
qed

lemma info_json_column:
  assumes "c \<in> set (columns info)"
  shows "sublist (json_string c) (dumps l (info_json info))"
proof -
  have "JString c \<in> set (map JString (columns info))" using assms by simp
  then have "sublist (dumps (Suc (Suc l)) (JString c))
      (dumps (Suc l) (JArray (map JString (columns info))))"
    by (rule dumps_array_elem)
  then have a: "sublist (json_string c) (dumps (Suc l) (JArray (map JString (columns info))))"
    by (simp only: dumps.simps(2))
  have b: "sublist (dumps (Suc l) (JArray (map JString (columns info)))) (dumps l (info_json info))"
    unfolding info_json_def by (rule dumps_object_value [of "''columns''"]) simp
  from a b show ?thesis by (rule sublist_trans)
qed

lemma info_json_column_type:
  assumes "c \<in> fst ` set (column_types info)"
  shows "sublist (json_string c) (dumps l (info_json info))"
proof -
  from assms obtain t where "(c, t) \<in> set (column_types info)" by auto
  then have "(c, JString t) \<in> set (map (\<lambda>ct. (fst ct, JString (snd ct))) (column_types info))"
    by force
  then have "sublist (json_string c)
      (dumps (Suc l) (JObject (map (\<lambda>ct. (fst ct, JString (snd ct))) (column_types info))))"
    by (rule dumps_object_key)
  moreover have "sublist (dumps (Suc l) (JObject (map (\<lambda>ct. (fst ct, JString (snd ct))) (column_types info))))
      (dumps l (info_json info))"
    unfolding info_json_def by (rule dumps_object_value [of "''column_types''"]) simp
  ultimately show ?thesis by (meson sublist_trans)
qed

lemma metadata_json_info:
  assumes "(name, info) \<in> set md"
  shows "sublist (dumps (Suc 0) (info_json info)) (dumps 0 (metadata_json (Some md)))"
    and "sublist (json_string name) (dumps 0 (metadata_json (Some md)))"
proof -
  have m: "(name, info_json info) \<in> set (map (\<lambda>e. (fst e, info_json (snd e))) md)"
    using assms by force
  show "sublist (dumps (Suc 0) (info_json info)) (dumps 0 (metadata_json (Some md)))"
    using dumps_object_value [OF m] by simp
  show "sublist (json_string name) (dumps 0 (metadata_json (Some md)))"
    using dumps_object_key [OF m] by simp
qed

lemma prompt_schema: "sublist (dumps 0 (metadata_json metadata)) (prompt q metadata)"
proof -
  have "sublist (''        '' @ dumps 0 (metadata_json metadata)) (prompt q metadata)"
    unfolding prompt_def by (rule sublist_join) simp
  then show ?thesis by (meson sublist_append_leftI sublist_trans)
qed

lemma prompt_table_name: "sublist ''xtstock2025'' (prompt q metadata)"
proof -
  let ?line = "''        2. Query from the '' @ [bt] @ ''xtstock2025'' @ [bt] @ '' table.''"
  have b: "sublist ?line (prompt q metadata)"
    unfolding prompt_def by (rule sublist_join) (simp add: prompt_rules_and_examples_def)
  have "sublist ''xtstock2025''
      ((''        2. Query from the '' @ [bt]) @ ''xtstock2025'' @ ([bt] @ '' table.''))"
    by (rule sublist_appendI)
  then have a: "sublist ''xtstock2025'' ?line" by (simp only: append_assoc)
  from a b show ?thesis by (rule sublist_trans)
qed

text \<open>
  Claim C8, as the code has it. The prompt always contains the target table name
  \<open>xtstock2025\<close>. Every column name of the metadata (of the column list and of the column
  types) is in the prompt in its JSON string form, in double quotes and with the encoder's
  escapes; a column name that consists of printable ASCII characters other than the double
  quote and the backslash, which the encoder leaves as they are, is itself in the prompt.
\<close>

theorem prompt_embeds_table_and_encoded_column_names:
  "sublist ''xtstock2025'' (prompt q metadata)
   \<and> (\<forall>md name info c.
         metadata = Some md \<and> (name, info) \<in> set md
         \<and> c \<in> set (columns info) \<union> fst ` set (column_types info) \<longrightarrow>
           sublist (json_string c) (prompt q metadata)
         \<and> ((\<forall>ch \<in> set c. json_plain ch) \<longrightarrow> sublist c (prompt q metadata)))"
proof (intro conjI allI impI)
  show "sublist ''xtstock2025'' (prompt q metadata)" by (rule prompt_table_name)
next
  fix md name info c
  assume h: "metadata = Some md \<and> (name, info) \<in> set md
         \<and> c \<in> set (columns info) \<union> fst ` set (column_types info)"
  have "sublist (json_string c) (dumps (Suc 0) (info_json info))"
    using h info_json_column info_json_column_type by blast
  then have "sublist (json_string c) (dumps 0 (metadata_json (Some md)))"
    using h metadata_json_info(1) [of name info md] by (meson sublist_trans)
  then show e: "sublist (json_string c) (prompt q metadata)"
    using h prompt_schema [of "Some md" q] by (meson sublist_trans)
  assume "\<forall>ch \<in> set c. json_plain ch"
  then have "sublist c (json_string c)" by (rule sublist_json_string)
  from this e show "sublist c (prompt q metadata)" by (rule sublist_trans)
qed

text \<open>
  A column name with a character outside ASCII is escaped in the schema and does not occur in
  the prompt.
\<close>

lemma accented_absent:
  "CHR 0xF6 \<notin> set (prompt ''Get all stock'' (Some accented_metadata))"
  by code_simp

lemma accented_entry:
  "(''xtstock2025'', accented_info) \<in> set accented_metadata"
  "accented_name \<in> set (columns accented_info) \<union> fst ` set (column_types accented_info)"
  "''category'' \<in> set (columns accented_info) \<union> fst ` set (column_types accented_info)"
  by (simp_all add: accented_metadata_def accented_info_def)

theorem escaped_column_name_absent_from_prompt:
  "(''xtstock2025'', accented_info) \<in> set accented_metadata
   \<and> accented_name \<in> set (columns accented_info) \<union> fst ` set (column_types accented_info)
   \<and> \<not> sublist accented_name (prompt ''Get all stock'' (Some accented_metadata))"
proof -
  have "\<not> sublist accented_name (prompt ''Get all stock'' (Some accented_metadata))"
  proof
    assume "sublist accented_name (prompt ''Get all stock'' (Some accented_metadata))"
    then have "set accented_name \<subseteq> set (prompt ''Get all stock'' (Some accented_metadata))"
      by (rule set_mono_sublist)
    then have "CHR 0xF6 \<in> set (prompt ''Get all stock'' (Some accented_metadata))"
      by (simp add: accented_name_def)
    with accented_absent show False by simp
  qed
  with accented_entry(1,2) show ?thesis by (intro conjI)
qed

lemma accented_json_string:
  "json_string accented_name = [dq] @ ''gr'' @ [bs] @ ''u00f6sse'' @ [dq]"
  by (simp add: accented_name_def json_string_def json_escape_char_def json_plain_def
        hex_digit_def)

theorem prompt_embeds_table_and_encoded_column_names_witness:
  "sublist ''xtstock2025'' (prompt ''Get all stock'' (Some accented_metadata))
   \<and> sublist ''category'' (prompt ''Get all stock'' (Some accented_metadata))
   \<and> sublist ([dq] @ ''gr'' @ [bs] @ ''u00f6sse'' @ [dq])
        (prompt ''Get all stock'' (Some accented_metadata))"
proof -
  note t = prompt_embeds_table_and_encoded_column_names
             [of "''Get all stock''" "Some accented_metadata"]
  have p: "\<forall>ch \<in> set ''category''. json_plain ch" by (simp add: json_plain_def)
  have a: "sublist ''xtstock2025'' (prompt ''Get all stock'' (Some accented_metadata))"
    using t by (rule conjunct1)
  have b: "sublist ''category'' (prompt ''Get all stock'' (Some accented_metadata))"
    using t accented_entry(1,3) p by blast
  have "sublist (json_string accented_name) (prompt ''Get all stock'' (Some accented_metadata))"
    using t accented_entry(1,2) by blast
  then have c: "sublist ([dq] @ ''gr'' @ [bs] @ ''u00f6sse'' @ [dq])
        (prompt ''Get all stock'' (Some accented_metadata))"
    by (simp only: accented_json_string)
  from a b c show ?thesis by (intro conjI)
qed

end
